theory Spec2Isabelle
  imports Complex_Main
begin

section \<open>Data model of \<open>lightning_gpu.py\<close>\<close>

text \<open>
  The device class \<open>LightningGPU\<close> is embedded with explicit state passing. Every
  method that can raise returns the exception as a value together with the device as
  it is at the moment of the raise, so that "nothing was mutated before the error" is a
  statement about the returned device. Python floats are idealised as \<open>real\<close> and
  complex floats as \<open>complex\<close>; warnings (\<open>warn(...)\<close>) do not change control flow
  and are left out. The native backend (\<open>lightning_gpu_qubit_ops\<close>), PennyLane's base
  class and the module \<open>_serialize\<close> are external: their entry points are parameters
  of the model, collected in the record \<open>env\<close> below.
\<close>

datatype error =
    ValueError
  | QuantumFunctionError
  | DeviceError
  | KeyError
  | IndexError
  | AttributeError
  | TypeError
  | UnsupportedOperation

text \<open>
  A numpy array: its shape and its elements in C order; \<open>is_abstract\<close> is what
  \<open>qml.math.is_abstract\<close> answers (a traced tensor without concrete values).
\<close>

record ndarray =
  shape :: "nat list"
  data :: "complex list"
  is_abstract :: bool

text \<open>A parameter: a Python float, a numpy float (\<open>np.floating\<close>), or an array.\<close>

datatype param = Num real | NpNum real | Arr ndarray

text \<open>
  The classes the source tests with \<open>isinstance\<close>: the two state preparations,
  \<open>Rot\<close>, any other \<open>Operation\<close>, and objects that are no \<open>Operation\<close> (an observable
  that owns a trainable parameter).
\<close>

datatype op_class = QubitStateVectorOp | BasisStateOp | RotOp | OtherOp | NotAnOperation

record operation =
  op_class :: op_class
  name :: string
  base_name :: string
  wires :: "nat list"
  inverse_op :: bool
  parameters :: "param list"
  num_params :: nat
  matrix :: "complex list list"

datatype return_type = Expectation | State | OtherReturn

datatype obs_class = ProjectorObs | HermitianObs | OtherObs

text \<open>
  The observable of a measurement process as \<open>_check_adjdiff_supported_measurements\<close>
  looks at it: a \<open>Tensor\<close> with the classes of its \<open>non_identity_obs\<close>, or anything
  else with its own class.
\<close>

datatype mobs = Plain obs_class | Tensor "obs_class list"

record measurement =
  return_type :: return_type
  obs :: mobs

text \<open>
  A tape: \<open>get_operation i\<close> is PennyLane's \<open>tape.get_operation(i)\<close>, the operator that
  owns the \<open>i\<close>-th trainable parameter.
\<close>

record 'ob tape =
  operations :: "operation list"
  measurements :: "measurement list"
  observables :: "'ob list"
  trainable_params :: "nat list"
  get_operation :: "nat \<Rightarrow> operation"

text \<open>\<open>batch_obs: Union[bool, int]\<close>.\<close>

datatype batch_cfg = BatchBool bool | BatchInt int

text \<open>
  The device: \<open>gpu_state\<close> is the device-resident state vector (\<open>self._gpu_state\<close>),
  \<open>state_host\<close> is \<open>self._state\<close>.
\<close>

record 'g device =
  num_wires :: nat
  shots :: "nat option"
  sync :: bool
  batch_obs :: batch_cfg
  use_csingle :: bool
  gpu_state :: 'g
  state_host :: ndarray
  pre_rotated_state :: ndarray
  samples :: "nat list list option"

text \<open>What \<open>adjoint_jacobian\<close> returns: \<open>np.array(0)\<close>, or a two-dimensional array.\<close>

datatype jacobian = Scalar real | Matrix (n_cols: nat) (rows: "real list list")

text \<open>
  The external collaborators of \<open>adjoint_jacobian\<close>:
  \<^item> \<open>serialize_ob\<close> is \<open>_serialize_ob\<close>, returning the serialized terms of one
    observable (one term, or the terms of a Hamiltonian);
  \<^item> \<open>serialize_ops\<close> is \<open>_serialize_ops\<close> followed by \<open>adj.create_ops_list\<close>, without
    the flag \<open>use_sp\<close>;
  \<^item> \<open>adjoint_jacobian_gpu\<close> and \<open>adjoint_jacobian_batched\<close> are the two entry points of
    \<open>AdjointJacobianGPU_C64/C128\<close> (the flag says which precision was built);
  \<^item> \<open>execute\<close> is \<open>QubitDevice.execute\<close>, \<open>resetGPU\<close> the backend's reset;
  \<^item> \<open>total_devices\<close> is what \<open>self._dp.getTotalDevices()\<close> returns.
\<close>

record ('g, 'ob, 'sob, 'sops) env =
  serialize_ob :: "'ob \<Rightarrow> bool \<Rightarrow> 'sob list"
  serialize_ops :: "operation list \<Rightarrow> bool \<Rightarrow> 'sops"
  adjoint_jacobian_gpu :: "bool \<Rightarrow> 'g \<Rightarrow> 'sob list \<Rightarrow> 'sops \<Rightarrow> int list \<Rightarrow> real list list"
  adjoint_jacobian_batched :: "bool \<Rightarrow> 'g \<Rightarrow> 'sob list \<Rightarrow> 'sops \<Rightarrow> int list \<Rightarrow> real list list"
  execute :: "'ob tape \<Rightarrow> 'g device \<Rightarrow> error option \<times> 'g device"
  resetGPU :: "bool \<Rightarrow> 'g \<Rightarrow> 'g"
  total_devices :: int

section \<open>Adjoint differentiation\<close>

subsection \<open>Validation\<close>

primrec unsupported_obs :: "mobs \<Rightarrow> bool" where
  "unsupported_obs (Plain c) = (c = ProjectorObs \<or> c = HermitianObs)"
| "unsupported_obs (Tensor cs) = (ProjectorObs \<in> set cs \<or> HermitianObs \<in> set cs)"

text \<open>The loop \<open>for m in measurements\<close>: the first unsupported observable raises.\<close>

primrec check_obs_loop :: "measurement list \<Rightarrow> error option" where
  "check_obs_loop [] = None"
| "check_obs_loop (m # ms) =
     (if unsupported_obs (obs m) then Some QuantumFunctionError else check_obs_loop ms)"

definition check_adjdiff_supported_measurements ::
  "measurement list \<Rightarrow> error + return_type option" where
  "check_adjdiff_supported_measurements ms =
     (if length ms = 0 then Inr None
      else if length ms = 1 \<and> return_type (ms ! 0) = State then Inl QuantumFunctionError
      else if \<not> list_all (\<lambda>m. return_type m = Expectation) ms then Inl QuantumFunctionError
      else (case check_obs_loop ms of
              Some e \<Rightarrow> Inl e
            | None \<Rightarrow> Inr (Some Expectation)))"

primrec check_adjdiff_supported_operations :: "operation list \<Rightarrow> error option" where
  "check_adjdiff_supported_operations [] = None"
| "check_adjdiff_supported_operations (op # ops) =
     (if num_params op > 1 \<and> op_class op \<noteq> RotOp then Some QuantumFunctionError
      else check_adjdiff_supported_operations ops)"

subsection \<open>State initialisation\<close>

text \<open>
  \<open>_create_basis_state_default\<close>: \<open>np.zeros(2)\<close> with entry \<open>index\<close> set to one. The source
  only calls it with index 0; an index outside the array raises.
\<close>

definition create_basis_state_default :: "nat \<Rightarrow> error + ndarray" where
  "create_basis_state_default index =
     (if index < 2 then Inr \<lparr>shape = [2], data = (replicate 2 0)[index := 1], is_abstract = False\<rparr>
      else Inl IndexError)"

text \<open>\<open>reset\<close>: \<open>QubitDevice.reset\<close> drops the sample cache.\<close>

definition reset ::
  "('g, 'ob, 'sob, 'sops) env \<Rightarrow> 'g device \<Rightarrow> error option \<times> 'g device" where
  "reset E dev =
     (let dev1 = dev\<lparr>samples := None\<rparr> in
      case create_basis_state_default 0 of
        Inl e \<Rightarrow> (Some e, dev1)
      | Inr s \<Rightarrow>
          (None, dev1\<lparr>state_host := s, pre_rotated_state := s,
                       gpu_state := resetGPU E False (gpu_state dev1)\<rparr>))"

text \<open>
  Lines 604 to 610. The vector \<open>ket\<close> the source builds there is never handed to the
  backend, which works on \<open>self._gpu_state\<close>; only the effects are kept.
\<close>

definition init_state ::
  "('g, 'ob, 'sob, 'sops) env \<Rightarrow> 'ob tape \<Rightarrow> ndarray option \<Rightarrow> bool \<Rightarrow> 'g device
     \<Rightarrow> error option \<times> 'g device" where
  "init_state E tape starting_state use_device_state dev =
     (case starting_state of
        Some s \<Rightarrow> (None, dev)
      | None \<Rightarrow>
          if \<not> use_device_state then
            (case reset E dev of
               (Some e, dev1) \<Rightarrow> (Some e, dev1)
             | (None, dev1) \<Rightarrow> execute E tape dev1)
          else (None, dev))"

subsection \<open>Serialization\<close>

primrec offsets_from :: "nat \<Rightarrow> nat list \<Rightarrow> nat list" where
  "offsets_from a [] = [a]"
| "offsets_from a (l # ls) = a # offsets_from (a + l) ls"

text \<open>
  Modelled from the spec: \<open>_serialize_observables\<close> of the module \<open>_serialize\<close>, which is
  not among the sources. It flattens the terms of all observables into one list and
  records, for each observable slot, the half-open range of its terms: slot \<open>i\<close> owns
  the rows from \<open>offsets ! i\<close> up to \<open>offsets ! (i + 1)\<close>.
\<close>

definition serialize_observables ::
  "('g, 'ob, 'sob, 'sops) env \<Rightarrow> 'ob tape \<Rightarrow> bool \<Rightarrow> 'sob list \<times> nat list" where
  "serialize_observables E tape c =
     (let terms = map (\<lambda>ob. serialize_ob E ob c) (observables tape)
      in (concat terms, offsets_from 0 (map length terms)))"

definition is_state_prep :: "operation \<Rightarrow> bool" where
  "is_state_prep op = (op_class op = BasisStateOp \<or> op_class op = QubitStateVectorOp)"

text \<open>
  Modelled from the spec: the flag \<open>use_sp\<close> that \<open>_serialize_ops\<close> returns, set when the
  first operation of the tape is a state preparation.
\<close>

definition use_sp :: "'ob tape \<Rightarrow> bool" where
  "use_sp tape = (case operations tape of [] \<Rightarrow> False | op # _ \<Rightarrow> is_state_prep op)"

subsection \<open>Trainable parameters\<close>

text \<open>
  The loop of lines 630 to 639 over \<open>enumerate(trainable_params)\<close>, with the accumulators
  \<open>tp_shift\<close>, \<open>record_tp_rows\<close> and \<open>all_params\<close>.
\<close>

definition is_differentiable_op :: "operation \<Rightarrow> bool" where
  "is_differentiable_op op = (op_class op \<noteq> NotAnOperation \<and> \<not> is_state_prep op)"

fun trainable_loop ::
  "(nat \<Rightarrow> operation) \<Rightarrow> nat \<Rightarrow> nat list \<Rightarrow> int list \<times> nat list \<times> nat
     \<Rightarrow> int list \<times> nat list \<times> nat" where
  "trainable_loop get op_idx [] acc = acc"
| "trainable_loop get op_idx (tp # rest) (tp_shift, record_tp_rows, all_params) =
     trainable_loop get (op_idx + 1) rest
       (if is_differentiable_op (get op_idx)
        then (tp_shift @ [int tp], record_tp_rows @ [all_params], all_params + 1)
        else (tp_shift, record_tp_rows, all_params + 1))"

definition filter_trainable :: "'ob tape \<Rightarrow> int list \<times> nat list \<times> nat" where
  "filter_trainable tape =
     (case trainable_loop (get_operation tape) 0 (sort (trainable_params tape)) ([], [], 0) of
        (tp_shift, record_tp_rows, all_params) \<Rightarrow>
          ((if use_sp tape then map (\<lambda>i. i - 1) tp_shift else tp_shift),
           record_tp_rows, all_params))"

subsection \<open>Batching over observables\<close>

text \<open>Python's \<open>range(0, stop, step)\<close>.\<close>

definition range_step :: "nat \<Rightarrow> int \<Rightarrow> error + nat list" where
  "range_step stop step =
     (if step = 0 then Inl ValueError
      else if step < 0 then Inr []
      else Inr (map (\<lambda>i. i * nat step) [0..<(stop + nat step - 1) div nat step]))"

definition truthy :: "batch_cfg \<Rightarrow> bool" where
  "truthy b = (case b of BatchBool v \<Rightarrow> v | BatchInt k \<Rightarrow> k \<noteq> 0)"

text \<open>Lines 655 to 678: the list \<open>jac\<close> of per-term rows.\<close>

definition term_rows ::
  "('g, 'ob, 'sob, 'sops) env \<Rightarrow> 'g device \<Rightarrow> 'sob list \<Rightarrow> 'sops \<Rightarrow> int list
     \<Rightarrow> error + real list list" where
  "term_rows E dev obs_serialized ops_serialized tp_shift =
     (if truthy (batch_obs dev) then
        (let num_obs = length obs_serialized;
             batch_size = (case batch_obs dev of
                             BatchBool _ \<Rightarrow> int num_obs
                           | BatchInt k \<Rightarrow> k * total_devices E)
         in case range_step num_obs batch_size of
              Inl e \<Rightarrow> Inl e
            | Inr chunks \<Rightarrow>
                Inr (concat (map (\<lambda>chunk.
                       adjoint_jacobian_batched E (use_csingle dev) (gpu_state dev)
                         (take (nat batch_size) (drop chunk obs_serialized))
                         ops_serialized tp_shift) chunks)))
      else Inr (adjoint_jacobian_gpu E (use_csingle dev) (gpu_state dev)
                  obs_serialized ops_serialized tp_shift))"

subsection \<open>Assembling the result\<close>

text \<open>
  \<open>np.array(jac).reshape(-1, n)\<close> on the flattened entries: numpy cannot infer the
  unknown dimension when \<open>n = 0\<close> or when \<open>n\<close> does not divide the size.
\<close>

definition reshape_rows :: "nat \<Rightarrow> real list \<Rightarrow> error + real list list" where
  "reshape_rows n flat =
     (if n = 0 \<or> length flat mod n \<noteq> 0 then Inl ValueError
      else Inr (map (\<lambda>i. take n (drop (i * n) flat)) [0..<length flat div n]))"

text \<open>
  Assigning a one-dimensional value to a row of width \<open>n\<close>: numpy copies a value of the
  same width, repeats a value of width one, and refuses anything else.
\<close>

definition broadcast_row :: "nat \<Rightarrow> real list \<Rightarrow> error + real list" where
  "broadcast_row n v =
     (if length v = n then Inr v
      else if length v = 1 then Inr (replicate n (v ! 0))
      else Inl ValueError)"

text \<open>\<open>np.sum(rows, axis=0)\<close> of an array with \<open>k\<close> columns.\<close>

definition sum_axis0 :: "nat \<Rightarrow> real list list \<Rightarrow> real list" where
  "sum_axis0 k rs = foldl (\<lambda>acc r. map2 (+) acc r) (replicate k 0) rs"

text \<open>
  The loop of lines 685 to 689. The slice \<open>jac[lo:hi, :]\<close> has shape \<open>(m, k)\<close>; assigned
  as it is to a row, its leading dimension must be one.
\<close>

fun reduce_terms ::
  "real list list \<Rightarrow> nat \<Rightarrow> nat list \<Rightarrow> nat \<Rightarrow> nat list \<Rightarrow> real list list
     \<Rightarrow> error + real list list" where
  "reduce_terms jac k offs n [] jac_r = Inr jac_r"
| "reduce_terms jac k offs n (idx # rest) jac_r =
     (let lo = offs ! idx; hi = offs ! (idx + 1);
          sl = take (hi - lo) (drop lo jac)
      in if \<not> idx < length jac_r then Inl IndexError
         else case (if int hi - int lo > 1 then broadcast_row n (sum_axis0 k sl)
                    else if length sl = 1 then broadcast_row n (sl ! 0)
                    else Inl ValueError) of
                Inl e \<Rightarrow> Inl e
              | Inr r \<Rightarrow> reduce_terms jac k offs n rest (jac_r[idx := r]))"

text \<open>Lines 618 to 691, which read the device and do not change it.\<close>

definition assemble ::
  "('g, 'ob, 'sob, 'sops) env \<Rightarrow> 'ob tape \<Rightarrow> 'g device \<Rightarrow> error + jacobian" where
  "assemble E tape dev =
     (case serialize_observables E tape (use_csingle dev) of
        (obs_serialized, obs_offsets) \<Rightarrow>
     (let ops_serialized = serialize_ops E (operations tape) (use_csingle dev) in
      case filter_trainable tape of
        (tp_shift, record_tp_rows, all_params) \<Rightarrow>
     (case term_rows E dev obs_serialized ops_serialized tp_shift of
        Inl e \<Rightarrow> Inl e
      | Inr jac0 \<Rightarrow>
     (case reshape_rows (length tp_shift) (concat jac0) of
        Inl e \<Rightarrow> Inl e
      | Inr jac \<Rightarrow>
     (case reduce_terms jac (length tp_shift) obs_offsets all_params
             [0..<length obs_offsets - 1]
             (replicate (length (observables tape)) (replicate all_params 0)) of
        Inl e \<Rightarrow> Inl e
      | Inr jac_r \<Rightarrow> Inr (Matrix all_params jac_r))))))"

definition adjoint_jacobian ::
  "('g, 'ob, 'sob, 'sops) env \<Rightarrow> 'ob tape \<Rightarrow> ndarray option \<Rightarrow> bool \<Rightarrow> 'g device
     \<Rightarrow> (error + jacobian) \<times> 'g device" where
  "adjoint_jacobian E tape starting_state use_device_state dev =
     (case check_adjdiff_supported_measurements (measurements tape) of
        Inl e \<Rightarrow> (Inl e, dev)
      | Inr tape_return_type \<Rightarrow>
          if length (trainable_params tape) = 0 then (Inr (Scalar 0), dev)
          else (case check_adjdiff_supported_operations (operations tape) of
                  Some e \<Rightarrow> (Inl e, dev)
                | None \<Rightarrow>
                    (case init_state E tape starting_state use_device_state dev of
                       (Some e, dev1) \<Rightarrow> (Inl e, dev1)
                     | (None, dev1) \<Rightarrow> (assemble E tape dev1, dev1))))"

section \<open>Observables and the backend\<close>

text \<open>
  \<open>observable.name\<close> is a string, or a list of strings for a tensor product. A term
  of a Hamiltonian (\<open>observable.ops\<close>) is kept with its name and wires.
\<close>

datatype obs_name = Single string | Multi "string list"

record word =
  word_name :: obs_name
  word_wires :: "nat list"

record observable =
  obs_name :: obs_name
  obs_wires :: "nat list"
  obs_parameters :: "param list"
  obs_matrix :: "complex list list"
  coeffs :: "real list"
  ops :: "word list"
  sparse_csr :: "nat list \<times> nat list \<times> complex list"
  diagonalizing_gates :: "operation list"

text \<open>
  The entry points of the bound state-vector object \<open>self._gpu_state\<close> and of the
  base class that the methods below call. \<open>kernel n\<close> is
  \<open>getattr(self._gpu_state, n, None)\<close>; the overloads of \<open>ExpectationValue\<close> are told
  apart by a suffix; \<open>map_wires\<close> and \<open>wire_indices\<close> are \<open>self.map_wires\<close> and
  \<open>self.wires.indices\<close>; \<open>super_expval\<close> and \<open>super_sample\<close> are \<open>QubitDevice.expval\<close>
  and \<open>QubitDevice.sample\<close>. Expectation values and sample generation read the state
  and leave it as it is.
\<close>

record 'g backend =
  map_wires :: "nat list \<Rightarrow> nat list"
  wire_indices :: "nat list \<Rightarrow> nat list"
  kernel :: "string \<Rightarrow> (nat list \<Rightarrow> bool \<Rightarrow> param list \<Rightarrow> 'g \<Rightarrow> 'g) option"
  apply_matrix :: "string \<Rightarrow> nat list \<Rightarrow> bool \<Rightarrow> param list \<Rightarrow> complex list \<Rightarrow> 'g \<Rightarrow> 'g"
  setBasisState :: "nat \<Rightarrow> bool \<Rightarrow> 'g \<Rightarrow> 'g"
  setZeroState :: "nat \<Rightarrow> bool \<Rightarrow> 'g \<Rightarrow> 'g"
  setStateVector :: "nat list \<Rightarrow> ndarray \<Rightarrow> bool \<Rightarrow> 'g \<Rightarrow> 'g"
  HostToDevice :: "complex list \<Rightarrow> bool \<Rightarrow> 'g \<Rightarrow> 'g"
  DeviceToHost :: "'g \<Rightarrow> complex list \<Rightarrow> bool \<Rightarrow> complex list"
  GenerateSamples :: "nat \<Rightarrow> nat option \<Rightarrow> 'g \<Rightarrow> nat list list"
  ExpectationValue_sparse :: "nat list \<Rightarrow> nat list \<Rightarrow> complex list \<Rightarrow> 'g \<Rightarrow> real"
  ExpectationValue_pauli :: "string list \<Rightarrow> nat list list \<Rightarrow> real list \<Rightarrow> 'g \<Rightarrow> real"
  ExpectationValue_dense :: "nat list \<Rightarrow> complex list \<Rightarrow> 'g \<Rightarrow> real"
  ExpectationValue_named :: "string \<Rightarrow> nat list \<Rightarrow> param list \<Rightarrow> complex list \<Rightarrow> 'g \<Rightarrow> real"
  ExpectationValue_names :: "string list \<Rightarrow> nat list \<Rightarrow> param list \<Rightarrow> complex list \<Rightarrow> 'g \<Rightarrow> real"
  super_expval :: "observable \<Rightarrow> 'g device \<Rightarrow> real"
  super_sample :: "observable \<Rightarrow> 'g device \<Rightarrow> real list"

section \<open>State preparation\<close>

definition tolerance :: real where
  "tolerance = 1 / 10 ^ 6"

text \<open>
  \<open>qml.math.allclose(norm, 1.0, atol=tolerance)\<close> on the list of norms: numpy's test
  \<open>|a - b| \<le> atol + rtol * |b|\<close> with the relative tolerance left at its default.
\<close>

definition rtol_default :: real where
  "rtol_default = 1 / 10 ^ 5"

definition allclose :: "real list \<Rightarrow> real \<Rightarrow> real \<Rightarrow> bool" where
  "allclose as b atol = list_all (\<lambda>a. \<bar>a - b\<bar> \<le> atol + rtol_default * \<bar>b\<bar>) as"

definition size_nd :: "ndarray \<Rightarrow> nat" where
  "size_nd t = prod_list (shape t)"

text \<open>\<open>len\<close> of an array is its first dimension.\<close>

definition len_nd :: "ndarray \<Rightarrow> nat" where
  "len_nd t = (case shape t of [] \<Rightarrow> 0 | d # _ \<Rightarrow> d)"

definition get_batch_size :: "ndarray \<Rightarrow> nat list \<Rightarrow> nat \<Rightarrow> nat option" where
  "get_batch_size tensor expected_shape expected_size =
     (let size = size_nd tensor
      in if length (shape tensor) > length expected_shape \<or> size > expected_size
         then Some (size div expected_size) else None)"

text \<open>\<open>state.shape in [(dim,), (batch_size, dim)]\<close>; no shape equals a tuple holding \<open>None\<close>.\<close>

definition shape_ok :: "ndarray \<Rightarrow> nat \<Rightarrow> nat option \<Rightarrow> bool" where
  "shape_ok state dim1 batch_size =
     (shape state = [dim1] \<or> (case batch_size of None \<Rightarrow> False | Some b \<Rightarrow> shape state = [b, dim1]))"

text \<open>\<open>norm(state, axis=-1, ord=2)\<close>: one Euclidean norm for each row of length \<open>dim\<close>.\<close>

definition norm2 :: "complex list \<Rightarrow> real" where
  "norm2 zs = sqrt (\<Sum>z\<leftarrow>zs. (cmod z)\<^sup>2)"

definition norms :: "ndarray \<Rightarrow> nat \<Rightarrow> real list" where
  "norms state dim1 =
     map (\<lambda>i. norm2 (take dim1 (drop (i * dim1) (data state)))) [0..<size_nd state div dim1]"

text \<open>\<open>syncH2D\<close> and \<open>syncD2H\<close>.\<close>

definition syncH2D :: "'g backend \<Rightarrow> 'g device \<Rightarrow> 'g device" where
  "syncH2D B dev = dev\<lparr>gpu_state := HostToDevice B (data (state_host dev)) False (gpu_state dev)\<rparr>"

definition syncD2H :: "'g backend \<Rightarrow> 'g device \<Rightarrow> 'g device" where
  "syncD2H B dev =
     (let st = (if len_nd (state_host dev) \<noteq> 2 ^ num_wires dev
                then \<lparr>shape = replicate (num_wires dev) 2,
                      data = replicate (2 ^ num_wires dev) 0, is_abstract = False\<rparr>
                else state_host dev);
          st' = st\<lparr>data := DeviceToHost B (gpu_state dev) (data st) False\<rparr>
      in dev\<lparr>state_host := st', pre_rotated_state := st'\<rparr>)"

text \<open>
  The index of the full register that a bit pattern on the given wires stands for:
  wire \<open>w\<close> weighs \<open>2 ^ (num_wires - 1 - w)\<close>. A wire outside the register has no weight.
\<close>

definition wires_in_range :: "nat \<Rightarrow> nat list \<Rightarrow> bool" where
  "wires_in_range n ws = list_all (\<lambda>w. w < n) ws"

definition ravel_index :: "nat \<Rightarrow> nat list \<Rightarrow> nat list \<Rightarrow> nat" where
  "ravel_index n ws bits = (\<Sum>(w, b)\<leftarrow>zip ws bits. b * 2 ^ (n - 1 - w))"

text \<open>\<open>product([0, 1], repeat=k)\<close>.\<close>

primrec basis_patterns :: "nat \<Rightarrow> nat list list" where
  "basis_patterns 0 = [[]]"
| "basis_patterns (Suc k) = map ((#) 0) (basis_patterns k) @ map ((#) 1) (basis_patterns k)"

text \<open>
  \<open>_apply_state_vector_GPU\<close>. The shape test and the norm test come first; the writes
  to \<open>self._state\<close> and to the device come after them. \<open>Wires\<close> hold no label twice, so
  the scatter of the bit patterns writes each wire once; a wire outside the register
  makes it raise.
\<close>

definition apply_state_vector_GPU ::
  "'g backend \<Rightarrow> ndarray \<Rightarrow> nat list \<Rightarrow> 'g device \<Rightarrow> error option \<times> 'g device" where
  "apply_state_vector_GPU B state ws dev =
     (let device_wires = map_wires B ws;
          dim1 = 2 ^ length device_wires;
          batch_size = get_batch_size state [dim1] dim1;
          output_shape = (case batch_size of
                            None \<Rightarrow> replicate (num_wires dev) 2
                          | Some b \<Rightarrow> b # replicate (num_wires dev) 2)
      in if \<not> shape_ok state dim1 batch_size then (Some ValueError, dev)
         else if \<not> is_abstract state \<and> \<not> allclose (norms state dim1) 1 tolerance
           then (Some ValueError, dev)
         else if length device_wires = num_wires dev \<and> sort device_wires = device_wires
           then (None, syncH2D B (dev\<lparr>state_host := state\<lparr>shape := output_shape\<rparr>\<rparr>))
         else if \<not> wires_in_range (num_wires dev) device_wires then (Some IndexError, dev)
         else (None, dev\<lparr>gpu_state :=
                 setStateVector B
                   (map (ravel_index (num_wires dev) device_wires)
                      (basis_patterns (length device_wires)))
                   state False (gpu_state dev)\<rparr>))"

text \<open>\<open>_apply_basis_state_GPU\<close>; \<open>2 ** k\<close> on an integer array raises for a negative \<open>k\<close>.\<close>

definition apply_basis_state_GPU ::
  "'g backend \<Rightarrow> ndarray \<Rightarrow> nat list \<Rightarrow> 'g device \<Rightarrow> error option \<times> 'g device" where
  "apply_basis_state_GPU B state ws dev =
     (let device_wires = map_wires B ws;
          n_basis_state = len_nd state
      in if \<not> set (data state) \<subseteq> {0, 1} then (Some ValueError, dev)
         else if n_basis_state \<noteq> length device_wires then (Some ValueError, dev)
         else if \<not> wires_in_range (num_wires dev) device_wires then (Some ValueError, dev)
         else
           (let num = ravel_index (num_wires dev) device_wires
                        (map (\<lambda>z. if z = 1 then 1 else 0) (data state))
            in (None, dev\<lparr>gpu_state :=
                  setBasisState B num False (setZeroState B 0 False (gpu_state dev))\<rparr>)))"

section \<open>Applying operations\<close>

text \<open>
  \<open>apply_cq\<close>: identities are skipped; a name with a native kernel calls it, any other
  operation is applied through its matrix, and an empty matrix raises.
\<close>

definition skipped_ops :: "string list" where
  "skipped_ops = [''Identity'']"

fun apply_cq :: "'g backend \<Rightarrow> operation list \<Rightarrow> 'g device \<Rightarrow> error option \<times> 'g device" where
  "apply_cq B [] dev = (None, dev)"
| "apply_cq B (o1 # rest) dev =
     (if base_name o1 \<in> set skipped_ops then apply_cq B rest dev
      else
        (let name1 = takeWhile (\<lambda>c. c \<noteq> CHR ''.'') (name o1);
             ws = wire_indices B (wires o1)
         in case kernel B name1 of
              None \<Rightarrow>
                if length (matrix o1) = 0 then (Some UnsupportedOperation, dev)
                else apply_cq B rest
                       (dev\<lparr>gpu_state :=
                          apply_matrix B name1 ws False [] (concat (matrix o1)) (gpu_state dev)\<rparr>)
            | Some method \<Rightarrow>
                apply_cq B rest
                  (dev\<lparr>gpu_state := method ws (inverse_op o1) (parameters o1) (gpu_state dev)\<rparr>)))"

text \<open>
  The first part of \<open>apply\<close> (lines 506 to 514): a leading state preparation is carried
  out and removed from the list. \<open>parameters[0]\<close> must be there and must be an array.
\<close>

definition prepare ::
  "'g backend \<Rightarrow> operation list \<Rightarrow> 'g device
     \<Rightarrow> error option \<times> 'g device \<times> operation list" where
  "prepare B oplist dev =
     (case oplist of
        [] \<Rightarrow> (None, dev, oplist)
      | op0 # rest \<Rightarrow>
          if op_class op0 = QubitStateVectorOp then
            (case parameters op0 of
               [] \<Rightarrow> (Some IndexError, dev, oplist)
             | Arr a # _ \<Rightarrow>
                 (case apply_state_vector_GPU B a (wires op0) dev of
                    (Some e, dev1) \<Rightarrow> (Some e, dev1, oplist)
                  | (None, dev1) \<Rightarrow> (None, dev1, rest))
             | _ # _ \<Rightarrow> (Some AttributeError, dev, oplist))
          else if op_class op0 = BasisStateOp then
            (case parameters op0 of
               [] \<Rightarrow> (Some IndexError, dev, oplist)
             | Arr a # _ \<Rightarrow>
                 (case apply_basis_state_GPU B a (wires op0) dev of
                    (Some e, dev1) \<Rightarrow> (Some e, dev1, oplist)
                  | (None, dev1) \<Rightarrow> (None, dev1, rest))
             | _ # _ \<Rightarrow> (Some TypeError, dev, oplist))
          else (None, dev, oplist))"

text \<open>\<open>apply\<close>.\<close>

definition apply_ops ::
  "'g backend \<Rightarrow> operation list \<Rightarrow> 'g device \<Rightarrow> error option \<times> 'g device" where
  "apply_ops B oplist dev =
     (case prepare B oplist dev of
        (Some e, dev1, _) \<Rightarrow> (Some e, dev1)
      | (None, dev1, oplist1) \<Rightarrow>
          if list_ex is_state_prep oplist1 then (Some DeviceError, dev1)
          else (case apply_cq B oplist1 dev1 of
                  (Some e, dev2) \<Rightarrow> (Some e, dev2)
                | (None, dev2) \<Rightarrow> (None, if sync dev2 then syncD2H B dev2 else dev2)))"

section \<open>Measurements\<close>

definition generate_samples :: "'g backend \<Rightarrow> 'g device \<Rightarrow> nat list list" where
  "generate_samples B dev = GenerateSamples B (num_wires dev) (shots dev) (gpu_state dev)"

text \<open>\<open>sample\<close>.\<close>

definition sample ::
  "'g backend \<Rightarrow> observable \<Rightarrow> 'g device \<Rightarrow> (error + real list) \<times> 'g device" where
  "sample B observable dev =
     (if obs_name observable \<noteq> Single ''PauliZ'' then
        (case apply_cq B (diagonalizing_gates observable) dev of
           (Some e, dev1) \<Rightarrow> (Inl e, dev1)
         | (None, dev1) \<Rightarrow>
             (let dev2 = dev1\<lparr>samples := Some (generate_samples B dev1)\<rparr>
              in (Inr (super_sample B observable dev2), dev2)))
      else (Inr (super_sample B observable dev), dev))"

text \<open>\<open>np.mean\<close> and \<open>np.var\<close> of the samples (of at least one shot).\<close>

definition mean_of :: "real list \<Rightarrow> real" where
  "mean_of xs = sum_list xs / real (length xs)"

definition var_of :: "real list \<Rightarrow> real" where
  "var_of xs = mean_of (map (\<lambda>x. (x - mean_of xs)\<^sup>2) xs)"

text \<open>The table \<open>_name_map\<close> and the loop that compresses the terms of a Hamiltonian.\<close>

definition name_map :: "string \<Rightarrow> string option" where
  "name_map = map_of [(''PauliX'', ''X''), (''PauliY'', ''Y''), (''PauliZ'', ''Z''),
                      (''Identity'', ''I'')]"

primrec compress_chars :: "string list \<Rightarrow> error + string" where
  "compress_chars [] = Inr []"
| "compress_chars (c # cs) =
     (case name_map c of
        None \<Rightarrow> Inl KeyError
      | Some x \<Rightarrow> (case compress_chars cs of Inl e \<Rightarrow> Inl e | Inr r \<Rightarrow> Inr (x @ r)))"

definition compress_word :: "word \<Rightarrow> error + string" where
  "compress_word w =
     (case word_name w of
        Multi ns \<Rightarrow> compress_chars ns
      | Single n \<Rightarrow> compress_chars [n])"

primrec pauli_words :: "word list \<Rightarrow> error + string list" where
  "pauli_words [] = Inr []"
| "pauli_words (w # ws) =
     (case compress_word w of
        Inl e \<Rightarrow> Inl e
      | Inr p \<Rightarrow> (case pauli_words ws of Inl e \<Rightarrow> Inl e | Inr ps \<Rightarrow> Inr (p # ps)))"

definition is_np_floating :: "param \<Rightarrow> bool" where
  "is_np_floating p = (case p of NpNum _ \<Rightarrow> True | _ \<Rightarrow> False)"

text \<open>\<open>expval\<close>.\<close>

definition expval ::
  "'g backend \<Rightarrow> observable \<Rightarrow> 'g device \<Rightarrow> (error + real) \<times> 'g device" where
  "expval B observable dev =
     (if obs_name observable \<in> {Single ''Projector'', Single ''Hermitian''} then
        (let dev1 = syncD2H B dev in (Inr (super_expval B observable dev1), dev1))
      else if shots dev \<noteq> None then
        (case sample B observable dev of
           (Inl e, dev1) \<Rightarrow> (Inl e, dev1)
         | (Inr samples1, dev1) \<Rightarrow> (Inr (mean_of samples1), dev1))
      else if obs_name observable = Single ''SparseHamiltonian'' then
        (case sparse_csr observable of
           (indptr, indices, values) \<Rightarrow>
             (Inr (ExpectationValue_sparse B indptr indices values (gpu_state dev)), dev))
      else if obs_name observable = Single ''Hamiltonian'' then
        (let device_wires = map_wires B (obs_wires observable)
         in if length device_wires > 13 then
              (case pauli_words (ops observable) of
                 Inl e \<Rightarrow> (Inl e, dev)
               | Inr pauli \<Rightarrow>
                   (Inr (ExpectationValue_pauli B pauli (map word_wires (ops observable))
                           (coeffs observable) (gpu_state dev)), dev))
            else
              (Inr (ExpectationValue_dense B device_wires (concat (obs_matrix observable))
                      (gpu_state dev)), dev))
      else
        (let par = (if length (obs_parameters observable) > 0
                       \<and> is_np_floating (obs_parameters observable ! 0)
                    then obs_parameters observable else [])
         in case obs_name observable of
              Single n \<Rightarrow>
                (Inr (ExpectationValue_named B n (wire_indices B (obs_wires observable)) par
                        (concat (obs_matrix observable)) (gpu_state dev)), dev)
            | Multi ns \<Rightarrow>
                (Inr (ExpectationValue_names B ns (wire_indices B (obs_wires observable)) par
                        (concat (obs_matrix observable)) (gpu_state dev)), dev)))"

text \<open>
  Matrices as lists of rows: \<open>math.T(math.conj(m))\<close> and \<open>np.matmul\<close> on the square
  matrix of an observable.
\<close>

definition conj_transpose :: "complex list list \<Rightarrow> complex list list" where
  "conj_transpose m = transpose (map (map cnj) m)"

definition matmul :: "complex list list \<Rightarrow> complex list list \<Rightarrow> complex list list" where
  "matmul a b = map (\<lambda>r. map (\<lambda>c. \<Sum>(x, y)\<leftarrow>zip r c. x * y) (transpose b)) a"

text \<open>\<open>[i + suffix for i in observable.name]\<close>: a string is iterated by character.\<close>

definition suffixed :: "obs_name \<Rightarrow> string \<Rightarrow> string list" where
  "suffixed n suffix =
     (case n of
        Single s \<Rightarrow> map (\<lambda>c. c # suffix) s
      | Multi ns \<Rightarrow> map (\<lambda>i. i @ suffix) ns)"

text \<open>\<open>var\<close>.\<close>

definition var ::
  "'g backend \<Rightarrow> observable \<Rightarrow> 'g device \<Rightarrow> (error + real) \<times> 'g device" where
  "var B observable dev =
     (if shots dev \<noteq> None then
        (case sample B observable dev of
           (Inl e, dev1) \<Rightarrow> (Inl e, dev1)
         | (Inr samples1, dev1) \<Rightarrow> (Inr (var_of samples1), dev1))
      else
        (let adjoint_matrix = conj_transpose (obs_matrix observable);
             sqr_matrix = matmul adjoint_matrix (obs_matrix observable);
             mean = ExpectationValue_names B (suffixed (obs_name observable) ''_var'')
                      (wire_indices B (obs_wires observable)) (obs_parameters observable)
                      (concat (obs_matrix observable)) (gpu_state dev);
             squared_mean = ExpectationValue_names B (suffixed (obs_name observable) ''_sqr'')
                      (wire_indices B (obs_wires observable)) (obs_parameters observable)
                      (concat sqr_matrix) (gpu_state dev)
         in (Inr (squared_mean - mean\<^sup>2), dev)))"

section \<open>The contract of the external collaborators\<close>

text \<open>
  Modelled from the spec: the contract of the native entry points \<open>adjoint_jacobian\<close> and
  \<open>adjoint_jacobian_batched\<close>, which are not among the sources. Each observable has its
  own bra buffer and no chunk depends on another, so both entry points return the same
  rows, and the rows for a list of observables are the rows of its members, in order.
\<close>

definition rowwise_backend :: "('g, 'ob, 'sob, 'sops) env \<Rightarrow> bool" where
  "rowwise_backend E \<longleftrightarrow>
     (\<forall>c g xs sops tp.
        adjoint_jacobian_batched E c g xs sops tp = adjoint_jacobian_gpu E c g xs sops tp)
     \<and> (\<forall>c g xs sops tp.
        adjoint_jacobian_gpu E c g xs sops tp
          = concat (map (\<lambda>x. adjoint_jacobian_gpu E c g [x] sops tp) xs))"

text \<open>
  Modelled from the spec: every serialized term yields one row, with one entry for each
  trainable position handed over.
\<close>

definition row_shaped :: "('g, 'ob, 'sob, 'sops) env \<Rightarrow> bool" where
  "row_shaped E \<longleftrightarrow>
     (\<forall>c g x sops tp.
        length (adjoint_jacobian_gpu E c g [x] sops tp) = 1
        \<and> length (hd (adjoint_jacobian_gpu E c g [x] sops tp)) = length tp)"


text \<open>
  The batching configurations under which the loop over the windows runs through: the
  unbatched ones, \<open>True\<close> with at least one serialized observable, and an integer
  whose product with the number of devices is positive.
\<close>

definition policy_ok :: "('g, 'ob, 'sob, 'sops) env \<Rightarrow> batch_cfg \<Rightarrow> nat \<Rightarrow> bool" where
  "policy_ok E b num_obs =
     (case b of
        BatchBool v \<Rightarrow> \<not> v \<or> 0 < num_obs
      | BatchInt k \<Rightarrow> k = 0 \<or> 0 < k * total_devices E)"

section \<open>A backend and tapes for the examples\<close>

text \<open>
  A backend whose device state is the list of the mutating calls made so far, so that
  two device states are equal exactly when the same calls were made.
\<close>

definition trace_backend :: "string list backend" where
  "trace_backend =
     \<lparr>map_wires = (\<lambda>ws. ws),
      wire_indices = (\<lambda>ws. ws),
      kernel = (\<lambda>n. if n \<in> {''PauliX'', ''Hadamard'', ''RX''}
                      then Some (\<lambda>ws inv ps g. g @ [n]) else None),
      apply_matrix = (\<lambda>n ws inv ps m g. g @ [''apply'']),
      setBasisState = (\<lambda>i a g. g @ [''setBasisState'']),
      setZeroState = (\<lambda>i a g. g @ [''setZeroState'']),
      setStateVector = (\<lambda>is st a g. g @ [''setStateVector'']),
      HostToDevice = (\<lambda>d a g. g @ [''HostToDevice'']),
      DeviceToHost = (\<lambda>g buf a. buf),
      GenerateSamples = (\<lambda>n s g. []),
      ExpectationValue_sparse = (\<lambda>p i v g. 1),
      ExpectationValue_pauli = (\<lambda>ps ws cs g. 2),
      ExpectationValue_dense = (\<lambda>ws m g. 3),
      ExpectationValue_named = (\<lambda>n ws ps m g. 4),
      ExpectationValue_names = (\<lambda>ns ws ps m g. Re (sum_list m)),
      super_expval = (\<lambda>ob dev. 5),
      super_sample = (\<lambda>ob dev. [])\<rparr>"

definition basis0 :: ndarray where
  "basis0 = \<lparr>shape = [2], data = [1, 0], is_abstract = False\<rparr>"

definition example_device :: "string list device" where
  "example_device =
     \<lparr>num_wires = 1, shots = None, sync = False, batch_obs = BatchBool False,
      use_csingle = False, gpu_state = [],
      state_host = basis0, pre_rotated_state = basis0, samples = None\<rparr>"

text \<open>
  Collaborators for the examples of \<open>adjoint_jacobian\<close>: an observable is the list of
  the coefficients of its terms, and the row of a term with coefficient \<open>c\<close> holds
  \<open>c * (i + 1)\<close> for the parameter position \<open>i\<close>.
\<close>

definition example_rows :: "real list \<Rightarrow> int list \<Rightarrow> real list list" where
  "example_rows cs tp = map (\<lambda>c. map (\<lambda>i. c * (of_int i + 1)) tp) cs"

definition example_env :: "(string list, real list, real, unit) env" where
  "example_env =
     \<lparr>serialize_ob = (\<lambda>ob c. ob),
      serialize_ops = (\<lambda>ops c. ()),
      adjoint_jacobian_gpu = (\<lambda>c g obs ops tp. example_rows obs tp),
      adjoint_jacobian_batched = (\<lambda>c g obs ops tp. example_rows obs tp),
      execute = (\<lambda>tape dev. (None, dev\<lparr>gpu_state := gpu_state dev @ [''execute'']\<rparr>)),
      resetGPU = (\<lambda>a g. []),
      total_devices = 2\<rparr>"

definition gate :: "op_class \<Rightarrow> string \<Rightarrow> nat \<Rightarrow> operation" where
  "gate c n k =
     \<lparr>op_class = c, name = n, base_name = n, wires = [0], inverse_op = False,
      parameters = replicate k (Num 0), num_params = k, matrix = [[1, 0], [0, 1]]\<rparr>"

definition state_prep :: "op_class \<Rightarrow> string \<Rightarrow> complex list \<Rightarrow> operation" where
  "state_prep c n amplitudes =
     \<lparr>op_class = c, name = n, base_name = n, wires = [0], inverse_op = False,
      parameters = [Arr \<lparr>shape = [length amplitudes], data = amplitudes, is_abstract = False\<rparr>],
      num_params = 1, matrix = []\<rparr>"

definition expectation_of :: "obs_class \<Rightarrow> measurement" where
  "expectation_of c = \<lparr>return_type = Expectation, obs = Plain c\<rparr>"

text \<open>Tapes for the examples of the validation in \<open>adjoint_jacobian\<close>.\<close>

definition tape_no_trainable :: "real list tape" where
  "tape_no_trainable =
     \<lparr>operations = [gate OtherOp ''RX'' 1], measurements = [expectation_of OtherObs],
      observables = [[1]], trainable_params = [],
      get_operation = (\<lambda>i. gate OtherOp ''RX'' 1)\<rparr>"

definition tape_state_return :: "real list tape" where
  "tape_state_return =
     \<lparr>operations = [gate OtherOp ''RX'' 1],
      measurements = [\<lparr>return_type = State, obs = Plain OtherObs\<rparr>],
      observables = [], trainable_params = [],
      get_operation = (\<lambda>i. gate OtherOp ''RX'' 1)\<rparr>"

definition tape_crot :: "nat list \<Rightarrow> real list tape" where
  "tape_crot tps =
     \<lparr>operations = [gate OtherOp ''CRot'' 3], measurements = [expectation_of OtherObs],
      observables = [[1]], trainable_params = tps,
      get_operation = (\<lambda>i. gate OtherOp ''CRot'' 3)\<rparr>"


definition tape_prepared :: "nat list \<Rightarrow> real list tape" where
  "tape_prepared tps =
     \<lparr>operations = [state_prep QubitStateVectorOp ''QubitStateVector'' [1, 0],
                    gate OtherOp ''RX'' 1, gate OtherOp ''RY'' 1],
      measurements = [expectation_of OtherObs],
      observables = [[1]], trainable_params = tps,
      get_operation = (\<lambda>i. if tps ! i = 0
                           then state_prep QubitStateVectorOp ''QubitStateVector'' [1, 0]
                           else gate OtherOp ''RX'' 1)\<rparr>"


section \<open>Validation before the sweep\<close>

lemma check_ops_None_iff:
  "check_adjdiff_supported_operations xs = None \<longleftrightarrow>
     (\<forall>x\<in>set xs. num_params x > 1 \<longrightarrow> op_class x = RotOp)"
  by (induction xs) auto

lemma check_ops_cases:
  "check_adjdiff_supported_operations xs = None \<or>
   check_adjdiff_supported_operations xs = Some QuantumFunctionError"
  by (induction xs) auto

lemma check_measurements_error:
  assumes "check_adjdiff_supported_measurements ms = Inl e"
  shows "e = QuantumFunctionError"
proof -
  have "check_obs_loop xs = Some e' \<Longrightarrow> e' = QuantumFunctionError" for xs e'
    by (induction xs) (auto split: if_splits)
  with assms show ?thesis
    by (auto simp: check_adjdiff_supported_measurements_def split: if_splits option.splits)
qed

text \<open>
  C7, as amended. The measurements are checked before the trainable parameters are
  looked at. For a tape whose measurements pass that check and whose set of trainable
  parameters is empty, \<open>adjoint_jacobian\<close> returns \<open>np.array(0)\<close> and leaves the device as
  it was, whatever the serializers, the forward execution and the backend would do:
  none of them is reached.
\<close>

theorem empty_trainable_short_circuit:
  assumes "check_adjdiff_supported_measurements (measurements tape) = Inr r"
    and "trainable_params tape = []"
  shows "adjoint_jacobian E tape starting_state use_device_state dev = (Inr (Scalar 0), dev)"
  using assms by (simp add: adjoint_jacobian_def)

theorem empty_trainable_short_circuit_witness:
  "check_adjdiff_supported_measurements (measurements tape_no_trainable) = Inr (Some Expectation)
   \<and> trainable_params tape_no_trainable = []
   \<and> adjoint_jacobian example_env tape_no_trainable None False example_device
       = (Inr (Scalar 0), example_device)"
proof -
  have m: "check_adjdiff_supported_measurements (measurements tape_no_trainable)
             = Inr (Some Expectation)"
    by (simp add: check_adjdiff_supported_measurements_def tape_no_trainable_def
        expectation_of_def)
  have t: "trainable_params tape_no_trainable = []"
    by (simp add: tape_no_trainable_def)
  show ?thesis
    using m t empty_trainable_short_circuit [OF m t] by simp
qed

text \<open>
  C7 as stated fails: a tape without trainable parameters whose only measurement
  returns the state is rejected, and no zero result is returned.
\<close>

theorem empty_trainable_counterexample:
  "trainable_params tape_state_return = []
   \<and> adjoint_jacobian example_env tape_state_return None False example_device
       = (Inl QuantumFunctionError, example_device)"
  by (simp add: adjoint_jacobian_def check_adjdiff_supported_measurements_def
      tape_state_return_def)

text \<open>
  C6, as amended. For a tape with at least one trainable parameter that holds an
  operation with more than one parameter that is no \<open>Rot\<close>, \<open>adjoint_jacobian\<close> raises
  \<open>QuantumFunctionError\<close> with the device untouched, for every choice of serializers,
  forward execution and backend: the error comes before any of them is called. A list
  of operations passes the check exactly when each of its operations with more than one
  parameter is a \<open>Rot\<close>.
\<close>

theorem unsupported_operation_rejected:
  "(trainable_params tape \<noteq> []
      \<and> (\<exists>x\<in>set (operations tape). num_params x > 1 \<and> op_class x \<noteq> RotOp)
     \<longrightarrow> adjoint_jacobian E tape starting_state use_device_state dev
           = (Inl QuantumFunctionError, dev))
   \<and> ((\<forall>x\<in>set xs. num_params x > 1 \<longrightarrow> op_class x = RotOp)
        \<longleftrightarrow> check_adjdiff_supported_operations xs = None)"
proof (intro conjI impI)
  assume a: "trainable_params tape \<noteq> []
      \<and> (\<exists>x\<in>set (operations tape). num_params x > 1 \<and> op_class x \<noteq> RotOp)"
  show "adjoint_jacobian E tape starting_state use_device_state dev
          = (Inl QuantumFunctionError, dev)"
  proof (cases "check_adjdiff_supported_measurements (measurements tape)")
    case (Inl e)
    then show ?thesis
      using check_measurements_error [OF Inl] by (simp add: adjoint_jacobian_def)
  next
    case (Inr r)
    from a have "check_adjdiff_supported_operations (operations tape) \<noteq> None"
      by (auto simp: check_ops_None_iff)
    then have "check_adjdiff_supported_operations (operations tape) = Some QuantumFunctionError"
      using check_ops_cases [of "operations tape"] by auto
    with Inr a show ?thesis by (simp add: adjoint_jacobian_def)
  qed
next
  show "(\<forall>x\<in>set xs. num_params x > 1 \<longrightarrow> op_class x = RotOp)
        \<longleftrightarrow> check_adjdiff_supported_operations xs = None"
    by (simp add: check_ops_None_iff)
qed

theorem unsupported_operation_rejected_witness:
  "trainable_params (tape_crot [0]) \<noteq> []
   \<and> (\<exists>x\<in>set (operations (tape_crot [0])). num_params x > 1 \<and> op_class x \<noteq> RotOp)
   \<and> adjoint_jacobian example_env (tape_crot [0]) None False example_device
       = (Inl QuantumFunctionError, example_device)
   \<and> num_params (gate RotOp ''Rot'' 3) = 3 \<and> op_class (gate RotOp ''Rot'' 3) = RotOp
   \<and> check_adjdiff_supported_operations [gate RotOp ''Rot'' 3, gate OtherOp ''RX'' 1] = None"
proof -
  have a: "trainable_params (tape_crot [0]) \<noteq> []
      \<and> (\<exists>x\<in>set (operations (tape_crot [0])). num_params x > 1 \<and> op_class x \<noteq> RotOp)"
    by (simp add: tape_crot_def gate_def)
  have b: "\<forall>x\<in>set [gate RotOp ''Rot'' 3, gate OtherOp ''RX'' 1].
             num_params x > 1 \<longrightarrow> op_class x = RotOp"
    by (simp add: gate_def)
  have c: "num_params (gate RotOp ''Rot'' 3) = 3 \<and> op_class (gate RotOp ''Rot'' 3) = RotOp"
    by (simp add: gate_def)
  show ?thesis
    using a b c
      unsupported_operation_rejected [of "tape_crot [0]" example_env None False example_device
        "[gate RotOp ''Rot'' 3, gate OtherOp ''RX'' 1]"]
    by blast
qed

text \<open>
  C6 as stated fails: with no trainable parameter the early return comes first, and a
  tape holding a three-parameter operation that is no \<open>Rot\<close> yields \<open>np.array(0)\<close>.
\<close>

theorem unsupported_operation_counterexample:
  "(\<exists>x\<in>set (operations (tape_crot [])). num_params x > 1 \<and> op_class x \<noteq> RotOp)
   \<and> adjoint_jacobian example_env (tape_crot []) None False example_device
       = (Inr (Scalar 0), example_device)"
  by (simp add: adjoint_jacobian_def check_adjdiff_supported_measurements_def
      tape_crot_def gate_def expectation_of_def)

section \<open>Batching over observables\<close>

lemma windows_concat:
  "concat (map (\<lambda>i. take b (drop (i * b) xs)) [0..<m]) = take (m * b) xs"
proof (induction m)
  case 0
  then show ?case by simp
next
  case (Suc m)
  have "take (m * b + b) xs = take (m * b) xs @ take b (drop (m * b) xs)"
    by (rule take_add)
  with Suc show ?case by (simp add: add.commute)
qed

lemma windows_cover:
  assumes "0 < b"
  shows "concat (map (\<lambda>i. take b (drop (i * b) xs)) [0..<(length xs + b - 1) div b]) = xs"
proof -
  have "length xs \<le> ((length xs + b - 1) div b) * b"
  proof -
    have "(length xs + b - 1) mod b < b" using assms by simp
    moreover have "((length xs + b - 1) div b) * b + (length xs + b - 1) mod b = length xs + b - 1"
      by simp
    ultimately show ?thesis using assms by linarith
  qed
  then show ?thesis by (simp add: windows_concat)
qed

lemma rowwise_concat:
  assumes "rowwise_backend E"
  shows "concat (map (\<lambda>ys. adjoint_jacobian_batched E c g ys sops tp) yss)
           = adjoint_jacobian_gpu E c g (concat yss) sops tp"
proof -
  define F where "F = (\<lambda>ys. concat (map (\<lambda>x. adjoint_jacobian_gpu E c g [x] sops tp) ys))"
  have u: "adjoint_jacobian_gpu E c g ys sops tp = F ys" for ys
    using assms unfolding rowwise_backend_def F_def by blast
  have b: "adjoint_jacobian_batched E c g ys sops tp = F ys" for ys
  proof -
    have "adjoint_jacobian_batched E c g ys sops tp = adjoint_jacobian_gpu E c g ys sops tp"
      using assms unfolding rowwise_backend_def by blast
    then show ?thesis by (simp only: u)
  qed
  have "concat (map F yss) = F (concat yss)"
    by (induction yss) (simp_all add: F_def)
  then show ?thesis by (simp only: b u)
qed

lemma term_rows_windows:
  assumes "rowwise_backend E" and "0 < b"
  shows "concat (map (\<lambda>chunk. adjoint_jacobian_batched E c g (take b (drop chunk xs)) sops tp)
                   (map (\<lambda>i. i * b) [0..<(length xs + b - 1) div b]))
           = adjoint_jacobian_gpu E c g xs sops tp"
proof -
  define L where "L = [0..<(length xs + b - 1) div b]"
  have "map (\<lambda>chunk. adjoint_jacobian_batched E c g (take b (drop chunk xs)) sops tp)
          (map (\<lambda>i. i * b) L)
        = map (\<lambda>ys. adjoint_jacobian_batched E c g ys sops tp)
            (map (\<lambda>i. take b (drop (i * b) xs)) L)"
    by (simp add: comp_def)
  then have "concat (map (\<lambda>chunk. adjoint_jacobian_batched E c g (take b (drop chunk xs)) sops tp)
                   (map (\<lambda>i. i * b) L))
        = adjoint_jacobian_gpu E c g (concat (map (\<lambda>i. take b (drop (i * b) xs)) L)) sops tp"
    by (simp only: rowwise_concat [OF assms(1)])
  moreover have "concat (map (\<lambda>i. take b (drop (i * b) xs)) L) = xs"
    unfolding L_def by (rule windows_cover [OF assms(2)])
  ultimately show ?thesis unfolding L_def by (simp only:)
qed

lemma term_rows_unbatched:
  "term_rows E (dev\<lparr>batch_obs := BatchBool False\<rparr>) xs sops tp
     = Inr (adjoint_jacobian_gpu E (use_csingle dev) (gpu_state dev) xs sops tp)"
  by (simp add: term_rows_def truthy_def)

lemma term_rows_distributed:
  assumes "rowwise_backend E" and "xs \<noteq> []"
  shows "term_rows E (dev\<lparr>batch_obs := BatchBool True\<rparr>) xs sops tp
     = Inr (adjoint_jacobian_gpu E (use_csingle dev) (gpu_state dev) xs sops tp)"
proof -
  have pos: "0 < length xs" using assms(2) by simp
  have r: "range_step (length xs) (int (length xs))
             = Inr (map (\<lambda>i. i * length xs) [0..<(length xs + length xs - 1) div length xs])"
    using pos by (simp add: range_step_def)
  show ?thesis
    using term_rows_windows [OF assms(1) pos, of "use_csingle dev" "gpu_state dev" xs sops tp]
    by (simp add: term_rows_def truthy_def r Let_def)
qed

lemma term_rows_capped:
  assumes "rowwise_backend E" and "0 < k * total_devices E"
  shows "term_rows E (dev\<lparr>batch_obs := BatchInt k\<rparr>) xs sops tp
     = Inr (adjoint_jacobian_gpu E (use_csingle dev) (gpu_state dev) xs sops tp)"
proof -
  define b where "b = nat (k * total_devices E)"
  have pos: "0 < b" using assms(2) by (simp add: b_def)
  have k: "k \<noteq> 0" "total_devices E \<noteq> 0" using assms(2) by auto
  have r: "range_step (length xs) (k * total_devices E)
             = Inr (map (\<lambda>i. i * b) [0..<(length xs + b - 1) div b])"
    using assms(2) k by (simp add: range_step_def b_def)
  show ?thesis
    using term_rows_windows [OF assms(1) pos, of "use_csingle dev" "gpu_state dev" xs sops tp] k
    by (simp add: term_rows_def truthy_def r Let_def b_def [symmetric])
qed







section \<open>Aggregation of the terms of an observable\<close>

lemma length_offsets_from: "length (offsets_from a ls) = Suc (length ls)"
  by (induction ls arbitrary: a) simp_all

lemma offsets_from_nth:
  "i \<le> length ts \<Longrightarrow> offsets_from a (map length ts) ! i = a + length (concat (take i ts))"
proof (induction ts arbitrary: a i)
  case Nil
  then show ?case by simp
next
  case (Cons t ts)
  show ?case
  proof (cases i)
    case 0
    then show ?thesis by simp
  next
    case (Suc j)
    with Cons.prems have "j \<le> length ts" by simp
    from Cons.IH [OF this, of "a + length t"] Suc show ?thesis by simp
  qed
qed

lemma concat_slice:
  assumes "i < length ts"
  shows "take (length (concat (take (Suc i) ts)) - length (concat (take i ts)))
           (drop (length (concat (take i ts))) (concat ts)) = ts ! i"
proof -
  have ts: "ts = take i ts @ (ts ! i) # drop (Suc i) ts"
    using assms by (simp add: id_take_nth_drop)
  have a: "concat ts = concat (take i ts) @ (ts ! i) @ concat (drop (Suc i) ts)"
    by (subst ts) simp
  have b: "length (concat (take (Suc i) ts)) = length (concat (take i ts)) + length (ts ! i)"
    using assms by (simp add: take_Suc_conv_app_nth)
  show ?thesis by (simp add: a b)
qed

lemma drop_concat_uniform:
  assumes "\<forall>r\<in>set rs. length r = k"
  shows "drop (i * k) (concat rs) = concat (drop i rs)"
  using assms
proof (induction rs arbitrary: i)
  case Nil
  then show ?case by simp
next
  case (Cons r rs)
  show ?case
  proof (cases i)
    case 0
    then show ?thesis by simp
  next
    case (Suc j)
    have "drop (Suc j * k) (r @ concat rs) = drop (j * k) (concat rs)"
      using Cons.prems by simp
    with Cons Suc show ?thesis by simp
  qed
qed

lemma reshape_concat:
  assumes "0 < k" and "\<forall>r\<in>set rs. length r = k"
  shows "reshape_rows k (concat rs) = Inr rs"
proof -
  have len: "length (concat rs) = length rs * k"
    using assms(2) by (induction rs) simp_all
  have "map (\<lambda>i. take k (drop (i * k) (concat rs))) [0..<length rs] = rs"
  proof (rule nth_equalityI)
    show "length (map (\<lambda>i. take k (drop (i * k) (concat rs))) [0..<length rs]) = length rs"
      by simp
  next
    fix i
    assume "i < length (map (\<lambda>i. take k (drop (i * k) (concat rs))) [0..<length rs])"
    then have i: "i < length rs" by simp
    then have d: "drop i rs = rs ! i # drop (Suc i) rs"
      by (simp add: Cons_nth_drop_Suc)
    have "length (rs ! i) = k" using assms(2) i by simp
    then have "take k (drop (i * k) (concat rs)) = rs ! i"
      by (simp add: drop_concat_uniform [OF assms(2)] d)
    with i show "map (\<lambda>i. take k (drop (i * k) (concat rs))) [0..<length rs] ! i = rs ! i"
      by simp
  qed
  with assms(1) len show ?thesis by (simp add: reshape_rows_def)
qed

lemma length_sum_axis0:
  assumes "\<forall>r\<in>set rs. length r = k"
  shows "length (sum_axis0 k rs) = k"
proof -
  have "length acc = k \<Longrightarrow> length (foldl (\<lambda>acc r. map2 (+) acc r) acc rs) = k" for acc :: "real list"
    using assms by (induction rs arbitrary: acc) simp_all
  then show ?thesis by (simp add: sum_axis0_def)
qed

lemma sum_axis0_single:
  "length r = k \<Longrightarrow> sum_axis0 k [r] = r"
  by (simp add: sum_axis0_def list_eq_iff_nth_eq)

lemma reduce_terms_fold:
  assumes "\<forall>idx\<in>set idxs. idx < length jac_r
             \<and> (let lo = offs ! idx; hi = offs ! (idx + 1); sl = take (hi - lo) (drop lo jac)
                in (if int hi - int lo > 1 then broadcast_row n (sum_axis0 k sl)
                    else if length sl = 1 then broadcast_row n (sl ! 0)
                    else Inl ValueError)) = Inr (f idx)"
  shows "reduce_terms jac k offs n idxs jac_r
           = Inr (fold (\<lambda>idx acc. acc[idx := f idx]) idxs jac_r)"
  using assms
proof (induction idxs arbitrary: jac_r)
  case Nil
  then show ?case by simp
next
  case (Cons idx idxs)
  from Cons.prems have h: "idx < length jac_r" by simp
  from Cons.prems have s: "(let lo = offs ! idx; hi = offs ! (idx + 1); sl = take (hi - lo) (drop lo jac)
                in (if int hi - int lo > 1 then broadcast_row n (sum_axis0 k sl)
                    else if length sl = 1 then broadcast_row n (sl ! 0)
                    else Inl ValueError)) = Inr (f idx)" by simp
  have r: "\<forall>i\<in>set idxs. i < length (jac_r[idx := f idx])
             \<and> (let lo = offs ! i; hi = offs ! (i + 1); sl = take (hi - lo) (drop lo jac)
                in (if int hi - int lo > 1 then broadcast_row n (sum_axis0 k sl)
                    else if length sl = 1 then broadcast_row n (sl ! 0)
                    else Inl ValueError)) = Inr (f i)"
    using Cons.prems by simp
  have "reduce_terms jac k offs n (idx # idxs) jac_r
          = reduce_terms jac k offs n idxs (jac_r[idx := f idx])"
    using h s by (simp add: Let_def)
  then show ?case using Cons.IH [OF r] by simp
qed

lemma fold_update_all:
  "m \<le> length xs \<Longrightarrow>
     fold (\<lambda>idx acc. acc[idx := f idx]) [0..<m] xs = map f [0..<m] @ drop m xs"
proof (induction m)
  case 0
  then show ?case by simp
next
  case (Suc m)
  then have m: "m < length xs" by simp
  have "fold (\<lambda>idx acc. acc[idx := f idx]) [0..<Suc m] xs
          = (map f [0..<m] @ drop m xs)[m := f m]"
    using Suc by simp
  also have "\<dots> = map f [0..<m] @ (drop m xs)[0 := f m]"
    by (simp add: list_update_append)
  also have "\<dots> = map f [0..<m] @ f m # drop (Suc m) xs"
    using m by (simp add: Cons_nth_drop_Suc [symmetric])
  finally show ?case by simp
qed

lemma trainable_loop_fst:
  "fst (trainable_loop get i tps (a, b, n))
     = a @ map (\<lambda>p. int (snd p))
            (filter (\<lambda>p. is_differentiable_op (get (fst p))) (enumerate i tps))"
  by (induction tps arbitrary: i a b n) simp_all

lemma trainable_loop_count:
  "snd (snd (trainable_loop get i tps (a, b, n))) = n + length tps"
  by (induction tps arbitrary: i a b n) simp_all

lemma filter_trainable_fst:
  "fst (filter_trainable tape)
     = map (\<lambda>p. int (snd p) - (if use_sp tape then 1 else 0))
         (filter (\<lambda>p. is_differentiable_op (get_operation tape (fst p)))
            (enumerate 0 (sort (trainable_params tape))))"
proof -
  obtain a b n where t: "trainable_loop (get_operation tape) 0 (sort (trainable_params tape)) ([], [], 0) = (a, b, n)"
    by (metis prod_cases3)
  have "a = map (\<lambda>p. int (snd p))
            (filter (\<lambda>p. is_differentiable_op (get_operation tape (fst p)))
               (enumerate 0 (sort (trainable_params tape))))"
    using trainable_loop_fst [of "get_operation tape" 0 "sort (trainable_params tape)" "[]" "[]" 0] t
    by simp
  then show ?thesis by (simp add: filter_trainable_def t comp_def)
qed

lemma filter_trainable_count:
  "snd (snd (filter_trainable tape)) = length (trainable_params tape)"
proof -
  obtain a b n where t: "trainable_loop (get_operation tape) 0 (sort (trainable_params tape)) ([], [], 0) = (a, b, n)"
    by (metis prod_cases3)
  have "n = length (trainable_params tape)"
    using trainable_loop_count [of "get_operation tape" 0 "sort (trainable_params tape)" "[]" "[]" 0] t
    by simp
  then show ?thesis by (simp add: filter_trainable_def t)
qed

lemma filter_all:
  assumes "\<forall>i<length tps. P i"
  shows "filter (\<lambda>p. P (fst p)) (enumerate 0 tps) = enumerate 0 tps"
proof -
  have "\<forall>p\<in>set (enumerate 0 tps). P (fst p)"
    using assms by (auto simp: in_set_enumerate_eq)
  then show ?thesis by simp
qed

lemma filter_trainable_all:
  assumes "\<forall>i<length (trainable_params tape). is_differentiable_op (get_operation tape i)"
  shows "length (fst (filter_trainable tape)) = length (trainable_params tape)"
proof -
  have "\<forall>i<length (sort (trainable_params tape)). is_differentiable_op (get_operation tape i)"
    using assms by simp
  from filter_all [where P = "\<lambda>i. is_differentiable_op (get_operation tape i)", OF this]
  show ?thesis by (simp add: filter_trainable_fst)
qed

lemma backend_rows:
  assumes "rowwise_backend E" and "row_shaped E"
  shows "adjoint_jacobian_gpu E c g xs sops tp
           = map (\<lambda>x. hd (adjoint_jacobian_gpu E c g [x] sops tp)) xs"
proof -
  have one: "adjoint_jacobian_gpu E c g [x] sops tp = [hd (adjoint_jacobian_gpu E c g [x] sops tp)]" for x
  proof -
    have "length (adjoint_jacobian_gpu E c g [x] sops tp) = 1"
      using assms(2) unfolding row_shaped_def by blast
    then show ?thesis
      by (cases "adjoint_jacobian_gpu E c g [x] sops tp") simp_all
  qed
  have "adjoint_jacobian_gpu E c g xs sops tp
          = concat (map (\<lambda>x. adjoint_jacobian_gpu E c g [x] sops tp) xs)"
    using assms(1) unfolding rowwise_backend_def by blast
  also have "\<dots> = concat (map (\<lambda>x. [hd (adjoint_jacobian_gpu E c g [x] sops tp)]) xs)"
    using one by simp
  finally show ?thesis by simp
qed

lemma assemble_rows:
  fixes E :: "('g, 'ob, 'sob, 'sops) env"
  assumes rw: "rowwise_backend E" and rs: "row_shaped E"
    and tr: "trainable_params tape \<noteq> []"
    and al: "\<forall>i<length (trainable_params tape). is_differentiable_op (get_operation tape i)"
    and ne: "\<forall>ob\<in>set (observables tape). serialize_ob E ob (use_csingle d) \<noteq> []"
    and tm: "term_rows E d (fst (serialize_observables E tape (use_csingle d)))
               (serialize_ops E (operations tape) (use_csingle d)) (fst (filter_trainable tape))
             = Inr (adjoint_jacobian_gpu E (use_csingle d) (gpu_state d)
                     (fst (serialize_observables E tape (use_csingle d)))
                     (serialize_ops E (operations tape) (use_csingle d))
                     (fst (filter_trainable tape)))"
  shows "assemble E tape d
           = Inr (Matrix (length (trainable_params tape))
                   (map (\<lambda>ob. sum_axis0 (length (trainable_params tape))
                                (adjoint_jacobian_gpu E (use_csingle d) (gpu_state d)
                                   (serialize_ob E ob (use_csingle d))
                                   (serialize_ops E (operations tape) (use_csingle d))
                                   (fst (filter_trainable tape))))
                      (observables tape)))"
proof -
  define c where "c = use_csingle d"
  define g where "g = gpu_state d"
  define sops where "sops = serialize_ops E (operations tape) c"
  define tp where "tp = fst (filter_trainable tape)"
  define k where "k = length (trainable_params tape)"
  define ts where "ts = map (\<lambda>ob. serialize_ob E ob c) (observables tape)"
  define row where "row = (\<lambda>x. hd (adjoint_jacobian_gpu E c g [x] sops tp))"
  define offs where "offs = offsets_from 0 (map length ts)"
  define R where "R = length (observables tape)"
  define f where "f = (\<lambda>idx. sum_axis0 k (map row (ts ! idx)))"
  have adj: "adjoint_jacobian_gpu E c g xs sops tp = map row xs" for xs
    unfolding row_def by (rule backend_rows [OF rw rs])
  have ltp: "length tp = k"
    unfolding tp_def k_def by (rule filter_trainable_all [OF al])
  have kpos: "0 < k" using tr by (simp add: k_def)
  have rowlen: "length (row x) = k" for x
    using rs ltp unfolding row_shaped_def row_def by simp
  obtain rt where ft: "filter_trainable tape = (tp, rt, k)"
    using filter_trainable_count [of tape]
    by (cases "filter_trainable tape") (simp add: tp_def k_def)
  have so: "serialize_observables E tape c = (concat ts, offs)"
    by (simp add: serialize_observables_def ts_def offs_def Let_def)
  have tm': "term_rows E d (concat ts) sops tp = Inr (map row (concat ts))"
    using tm by (simp add: c_def [symmetric] so sops_def [symmetric] tp_def [symmetric]
        g_def [symmetric] adj)
  have resh: "reshape_rows k (concat (map row (concat ts))) = Inr (map row (concat ts))"
    by (rule reshape_concat [OF kpos]) (simp add: rowlen)
  have lts: "length ts = R" by (simp add: ts_def R_def)
  have loffs: "length offs - Suc 0 = R" by (simp add: offs_def length_offsets_from lts)
  have step: "idx < length (replicate R (replicate k (0::real)))
             \<and> (let lo = offs ! idx; hi = offs ! (idx + 1);
                    sl = take (hi - lo) (drop lo (map row (concat ts)))
                in (if int hi - int lo > 1 then broadcast_row k (sum_axis0 k sl)
                    else if length sl = 1 then broadcast_row k (sl ! 0)
                    else Inl ValueError)) = Inr (f idx)"
    if "idx \<in> set [0..<R]" for idx
  proof -
    from that have i: "idx < length ts" by (simp add: lts)
    have lo: "offs ! idx = length (concat (take idx ts))"
      using i by (simp add: offs_def offsets_from_nth)
    have hi: "offs ! Suc idx = length (concat (take (Suc idx) ts))"
      using i offsets_from_nth [of "Suc idx" ts 0] by (simp add: offs_def)
    have d: "offs ! (idx + 1) - offs ! idx = length (ts ! idx)"
      using i by (simp add: lo hi take_Suc_conv_app_nth)
    have ge: "offs ! idx \<le> offs ! (idx + 1)"
      using i by (simp add: lo hi take_Suc_conv_app_nth)
    have sl: "take (offs ! (idx + 1) - offs ! idx) (drop (offs ! idx) (map row (concat ts)))
                = map row (ts ! idx)"
      using concat_slice [OF i] by (simp add: lo hi take_map drop_map)
    have "ts ! idx \<noteq> []"
      using ne i by (simp add: ts_def c_def)
    then have pos: "0 < length (ts ! idx)" by simp
    have lsum: "length (sum_axis0 k (map row (ts ! idx))) = k"
      by (rule length_sum_axis0) (simp add: rowlen)
    have "(if int (offs ! (idx + 1)) - int (offs ! idx) > 1
            then broadcast_row k (sum_axis0 k (map row (ts ! idx)))
            else if length (map row (ts ! idx)) = 1 then broadcast_row k (map row (ts ! idx) ! 0)
            else Inl ValueError) = Inr (f idx)"
    proof (cases "1 < length (ts ! idx)")
      case True
      then have "int (offs ! (idx + 1)) - int (offs ! idx) > 1"
        using d ge by linarith
      then show ?thesis by (simp add: broadcast_row_def lsum f_def)
    next
      case False
      with pos have one: "length (ts ! idx) = 1" by linarith
      then obtain t where t: "ts ! idx = [t]"
        by (cases "ts ! idx") simp_all
      have "\<not> int (offs ! (idx + 1)) - int (offs ! idx) > 1"
        using d ge one by linarith
      then show ?thesis
        by (simp add: t broadcast_row_def rowlen f_def sum_axis0_single)
    qed
    moreover have "idx < length (replicate R (replicate k (0::real)))"
      using that by simp
    ultimately show ?thesis unfolding Let_def sl by (rule conjI [rotated])
  qed
  have red: "reduce_terms (map row (concat ts)) k offs k [0..<R] (replicate R (replicate k 0))
               = Inr (map f [0..<R])"
  proof -
    have "reduce_terms (map row (concat ts)) k offs k [0..<R] (replicate R (replicate k 0))
            = Inr (fold (\<lambda>idx acc. acc[idx := f idx]) [0..<R] (replicate R (replicate k 0)))"
      by (rule reduce_terms_fold) (use step in blast)
    then show ?thesis by (simp add: fold_update_all)
  qed
  have mf: "map f [0..<R] = map (\<lambda>ob. sum_axis0 k (adjoint_jacobian_gpu E c g (serialize_ob E ob c) sops tp))
                              (observables tape)"
    by (rule nth_equalityI) (simp_all add: R_def f_def ts_def adj)
  have "assemble E tape d = Inr (Matrix k (map f [0..<R]))"
    by (simp add: assemble_def c_def [symmetric] so sops_def [symmetric] ft tm' resh ltp loffs
        R_def [symmetric] red)
  then show ?thesis
    by (simp add: mf k_def c_def g_def sops_def tp_def)
qed

lemma term_rows_ok:
  assumes "rowwise_backend E" and "policy_ok E (batch_obs d) (length xs)"
  shows "term_rows E d xs sops tp
           = Inr (adjoint_jacobian_gpu E (use_csingle d) (gpu_state d) xs sops tp)"
proof (cases "batch_obs d")
  case (BatchBool v)
  then have d: "d = d\<lparr>batch_obs := BatchBool v\<rparr>" by simp
  show ?thesis
  proof (cases v)
    case True
    with assms(2) BatchBool have "xs \<noteq> []" by (simp add: policy_ok_def)
    from term_rows_distributed [OF assms(1) this, of d sops tp] d True show ?thesis by simp
  next
    case False
    with term_rows_unbatched [of E d xs sops tp] d show ?thesis by simp
  qed
next
  case (BatchInt k)
  then have d: "d = d\<lparr>batch_obs := BatchInt k\<rparr>" by simp
  show ?thesis
  proof (cases "k = 0")
    case True
    with BatchInt show ?thesis by (simp add: term_rows_def truthy_def)
  next
    case False
    with assms(2) BatchInt have "0 < k * total_devices E" by (simp add: policy_ok_def)
    from term_rows_capped [OF assms(1) this, of d xs sops tp] d show ?thesis by simp
  qed
qed



lemma example_env_rowwise: "rowwise_backend example_env"
  by (simp add: rowwise_backend_def example_env_def example_rows_def)

lemma example_env_row_shaped: "row_shaped example_env"
  by (simp add: row_shaped_def example_env_def example_rows_def)



section \<open>Trainable parameters and state preparation\<close>

lemma adjoint_jacobian_result:
  fixes E :: "('g, 'ob, 'sob, 'sops) env"
  assumes "rowwise_backend E" and "row_shaped E"
    and "check_adjdiff_supported_measurements (measurements tape) = Inr r"
    and "check_adjdiff_supported_operations (operations tape) = None"
    and "init_state E tape ss uds dev = (None, d1)"
    and "trainable_params tape \<noteq> []"
    and "\<forall>i<length (trainable_params tape). is_differentiable_op (get_operation tape i)"
    and "\<forall>ob\<in>set (observables tape). serialize_ob E ob (use_csingle d1) \<noteq> []"
    and "policy_ok E (batch_obs d1)
           (length (fst (serialize_observables E tape (use_csingle d1))))"
  shows "adjoint_jacobian E tape ss uds dev
           = (Inr (Matrix (length (trainable_params tape))
                    (map (\<lambda>ob. sum_axis0 (length (trainable_params tape))
                                (adjoint_jacobian_gpu E (use_csingle d1) (gpu_state d1)
                                   (serialize_ob E ob (use_csingle d1))
                                   (serialize_ops E (operations tape) (use_csingle d1))
                                   (fst (filter_trainable tape))))
                      (observables tape))), d1)"
proof -
  have tm: "term_rows E d1 (fst (serialize_observables E tape (use_csingle d1)))
               (serialize_ops E (operations tape) (use_csingle d1)) (fst (filter_trainable tape))
             = Inr (adjoint_jacobian_gpu E (use_csingle d1) (gpu_state d1)
                     (fst (serialize_observables E tape (use_csingle d1)))
                     (serialize_ops E (operations tape) (use_csingle d1))
                     (fst (filter_trainable tape)))"
    by (rule term_rows_ok [OF assms(1) assms(9)])
  show ?thesis
    using assemble_rows [OF assms(1,2,6,7,8) tm] assms(3,4,5,6)
    by (simp add: adjoint_jacobian_def)
qed

lemma map_snd_enumerate_comp: "map (\<lambda>p. f (snd p)) (enumerate n xs) = map f xs"
  by (induction xs arbitrary: n) simp_all

lemma filter_trainable_shifted:
  assumes "use_sp tape"
    and "\<forall>i<length (trainable_params tape). is_differentiable_op (get_operation tape i)"
  shows "fst (filter_trainable tape) = map (\<lambda>p. int p - 1) (sort (trainable_params tape))"
proof -
  have "\<forall>i<length (sort (trainable_params tape)). is_differentiable_op (get_operation tape i)"
    using assms(2) by simp
  from filter_all [where P = "\<lambda>i. is_differentiable_op (get_operation tape i)", OF this]
  have "fst (filter_trainable tape)
          = map (\<lambda>p. int (snd p) - 1) (enumerate 0 (sort (trainable_params tape)))"
    using assms(1) by (simp add: filter_trainable_fst)
  also have "\<dots> = map (\<lambda>p. int p - 1) (sort (trainable_params tape))"
    by (rule map_snd_enumerate_comp)
  finally show ?thesis .
qed

text \<open>
  C1, as amended. For a tape whose first operation is a state preparation, the list of
  positions handed to the reverse sweep holds the sorted trainable positions whose
  operator is an \<open>Operation\<close> other than a state preparation, each shifted down by one;
  the parameters of a state preparation never occur in it. When no trainable parameter
  belongs to a state preparation (and the validation passes), the returned Jacobian has
  exactly one column for each entry of that list, and its rows are what the backend
  computes for the shifted positions.
\<close>

theorem state_prep_parameters_filtered:
  fixes E :: "('g, 'ob, 'sob, 'sops) env"
  assumes "use_sp tape"
  shows "fst (filter_trainable tape)
           = map (\<lambda>p. int (snd p) - 1)
               (filter (\<lambda>p. is_differentiable_op (get_operation tape (fst p)))
                  (enumerate 0 (sort (trainable_params tape))))
         \<and> (rowwise_backend E \<and> row_shaped E
              \<and> check_adjdiff_supported_measurements (measurements tape) = Inr r
              \<and> check_adjdiff_supported_operations (operations tape) = None
              \<and> init_state E tape ss uds dev = (None, d1)
              \<and> trainable_params tape \<noteq> []
              \<and> (\<forall>i<length (trainable_params tape). is_differentiable_op (get_operation tape i))
              \<and> (\<forall>ob\<in>set (observables tape). serialize_ob E ob (use_csingle d1) \<noteq> [])
              \<and> policy_ok E (batch_obs d1)
                    (length (fst (serialize_observables E tape (use_csingle d1))))
            \<longrightarrow> fst (filter_trainable tape) = map (\<lambda>p. int p - 1) (sort (trainable_params tape))
                \<and> (\<exists>J. adjoint_jacobian E tape ss uds dev
                           = (Inr (Matrix (length (fst (filter_trainable tape))) J), d1)
                      \<and> length J = length (observables tape)
                      \<and> (\<forall>row\<in>set J. length row = length (fst (filter_trainable tape)))
                      \<and> J = map (\<lambda>ob. sum_axis0 (length (fst (filter_trainable tape)))
                                       (adjoint_jacobian_gpu E (use_csingle d1) (gpu_state d1)
                                          (serialize_ob E ob (use_csingle d1))
                                          (serialize_ops E (operations tape) (use_csingle d1))
                                          (map (\<lambda>p. int p - 1) (sort (trainable_params tape)))))
                                (observables tape)))"
proof (intro conjI impI)
  show "fst (filter_trainable tape)
           = map (\<lambda>p. int (snd p) - 1)
               (filter (\<lambda>p. is_differentiable_op (get_operation tape (fst p)))
                  (enumerate 0 (sort (trainable_params tape))))"
    using assms by (simp add: filter_trainable_fst)
next
  assume h: "rowwise_backend E \<and> row_shaped E
              \<and> check_adjdiff_supported_measurements (measurements tape) = Inr r
              \<and> check_adjdiff_supported_operations (operations tape) = None
              \<and> init_state E tape ss uds dev = (None, d1)
              \<and> trainable_params tape \<noteq> []
              \<and> (\<forall>i<length (trainable_params tape). is_differentiable_op (get_operation tape i))
              \<and> (\<forall>ob\<in>set (observables tape). serialize_ob E ob (use_csingle d1) \<noteq> [])
              \<and> policy_ok E (batch_obs d1)
                    (length (fst (serialize_observables E tape (use_csingle d1))))"
  then have rw: "rowwise_backend E" and rs: "row_shaped E"
    and al: "\<forall>i<length (trainable_params tape). is_differentiable_op (get_operation tape i)"
    by blast+
  show sh: "fst (filter_trainable tape) = map (\<lambda>p. int p - 1) (sort (trainable_params tape))"
    by (rule filter_trainable_shifted [OF assms al])
  have len: "length (fst (filter_trainable tape)) = length (trainable_params tape)"
    by (rule filter_trainable_all [OF al])
  have res: "adjoint_jacobian E tape ss uds dev
           = (Inr (Matrix (length (trainable_params tape))
                    (map (\<lambda>ob. sum_axis0 (length (trainable_params tape))
                                (adjoint_jacobian_gpu E (use_csingle d1) (gpu_state d1)
                                   (serialize_ob E ob (use_csingle d1))
                                   (serialize_ops E (operations tape) (use_csingle d1))
                                   (fst (filter_trainable tape))))
                      (observables tape))), d1)"
    using h by (intro adjoint_jacobian_result) blast+
  have rl: "length (sum_axis0 (length (trainable_params tape))
                     (adjoint_jacobian_gpu E c g xs sops (fst (filter_trainable tape))))
              = length (trainable_params tape)" for c g xs sops
  proof (rule length_sum_axis0)
    show "\<forall>r\<in>set (adjoint_jacobian_gpu E c g xs sops (fst (filter_trainable tape))).
            length r = length (trainable_params tape)"
      using rs len unfolding backend_rows [OF rw rs, of c g xs sops] row_shaped_def by simp
  qed
  show "\<exists>J. adjoint_jacobian E tape ss uds dev
                           = (Inr (Matrix (length (fst (filter_trainable tape))) J), d1)
                      \<and> length J = length (observables tape)
                      \<and> (\<forall>row\<in>set J. length row = length (fst (filter_trainable tape)))
                      \<and> J = map (\<lambda>ob. sum_axis0 (length (fst (filter_trainable tape)))
                                       (adjoint_jacobian_gpu E (use_csingle d1) (gpu_state d1)
                                          (serialize_ob E ob (use_csingle d1))
                                          (serialize_ops E (operations tape) (use_csingle d1))
                                          (map (\<lambda>p. int p - 1) (sort (trainable_params tape)))))
                                (observables tape)"
    unfolding len sh [symmetric]
    using res rl by auto
qed

lemmas example_eval = adjoint_jacobian_def check_adjdiff_supported_measurements_def
      expectation_of_def gate_def state_prep_def init_state_def assemble_def serialize_observables_def
      example_env_def filter_trainable_def is_differentiable_op_def is_state_prep_def use_sp_def
      term_rows_def truthy_def example_device_def example_rows_def reshape_rows_def
      broadcast_row_def sum_axis0_def range_step_def Let_def

theorem state_prep_parameters_filtered_witness:
  "use_sp (tape_prepared [1, 2])
   \<and> fst (filter_trainable (tape_prepared [1, 2])) = [0, 1]
   \<and> (\<exists>J. adjoint_jacobian example_env (tape_prepared [1, 2]) None True example_device
              = (Inr (Matrix 2 J), example_device)
         \<and> length J = 1 \<and> J = [[1, 2]])"
proof -
  have u: "use_sp (tape_prepared [1, 2])"
    by (simp add: use_sp_def tape_prepared_def is_state_prep_def state_prep_def)
  have m: "check_adjdiff_supported_measurements (measurements (tape_prepared [1, 2]))
             = Inr (Some Expectation)"
    by (simp add: check_adjdiff_supported_measurements_def tape_prepared_def expectation_of_def)
  have o: "check_adjdiff_supported_operations (operations (tape_prepared [1, 2])) = None"
    by (simp add: tape_prepared_def gate_def state_prep_def)
  have i: "init_state example_env (tape_prepared [1, 2]) None True example_device
             = (None, example_device)"
    by (simp add: init_state_def)
  have t: "trainable_params (tape_prepared [1, 2]) \<noteq> []"
    by (simp add: tape_prepared_def)
  have d: "\<forall>i<length (trainable_params (tape_prepared [1, 2])).
             is_differentiable_op (get_operation (tape_prepared [1, 2]) i)"
    by (simp add: tape_prepared_def is_differentiable_op_def is_state_prep_def gate_def
        less_Suc_eq)
  have n: "\<forall>ob\<in>set (observables (tape_prepared [1, 2])).
             serialize_ob example_env ob (use_csingle example_device) \<noteq> []"
    by (simp add: tape_prepared_def example_env_def)
  have p: "policy_ok example_env (batch_obs example_device)
             (length (fst (serialize_observables example_env (tape_prepared [1, 2])
                (use_csingle example_device))))"
    by (simp add: policy_ok_def example_device_def)
  have s: "sort (trainable_params (tape_prepared [1, 2])) = [1, 2]"
    by (simp add: tape_prepared_def)
  note th = state_prep_parameters_filtered [OF u, of example_env "Some Expectation" None True
      example_device example_device]
  from th example_env_rowwise example_env_row_shaped m o i t d n p
  have tp: "fst (filter_trainable (tape_prepared [1, 2])) = map (\<lambda>p. int p - 1) (sort (trainable_params (tape_prepared [1, 2])))"
    by blast
  then have tp': "fst (filter_trainable (tape_prepared [1, 2])) = [0, 1]"
    unfolding s by simp
  from th example_env_rowwise example_env_row_shaped m o i t d n p
  obtain J where res: "adjoint_jacobian example_env (tape_prepared [1, 2]) None True example_device
                           = (Inr (Matrix (length (fst (filter_trainable (tape_prepared [1, 2])))) J), example_device)"
    and len: "length J = length (observables (tape_prepared [1, 2]))"
    and J: "J = map (\<lambda>ob. sum_axis0 (length (fst (filter_trainable (tape_prepared [1, 2]))))
                                       (adjoint_jacobian_gpu example_env (use_csingle example_device) (gpu_state example_device)
                                          (serialize_ob example_env ob (use_csingle example_device))
                                          (serialize_ops example_env (operations (tape_prepared [1, 2])) (use_csingle example_device))
                                          (map (\<lambda>p. int p - 1) (sort (trainable_params (tape_prepared [1, 2])))))) 
                                (observables (tape_prepared [1, 2]))"
    by blast
  have "J = [[1, 2]]"
    unfolding J tp' s
    by (simp add: tape_prepared_def example_env_def example_rows_def sum_axis0_def numeral_2_eq_2)
  with u tp' res len show ?thesis
    by (auto simp: tape_prepared_def)
qed

text \<open>
  C1 as stated fails once the parameter of the state preparation is marked trainable:
  the result array is allocated with one column for every trainable parameter
  (\<open>all_params\<close>), and the list \<open>record_tp_rows\<close> that says where the filtered columns
  belong is never used. With one rotation the single filtered column is broadcast into
  two columns; with two rotations the assignment of a row of width two to a row of width
  three raises.
\<close>

theorem state_prep_parameters_counterexample:
  "use_sp (tape_prepared [0, 1])
   \<and> fst (filter_trainable (tape_prepared [0, 1])) = [0]
   \<and> fst (adjoint_jacobian example_env (tape_prepared [0, 1]) None True example_device)
       = Inr (Matrix 2 [[1, 1]])
   \<and> fst (filter_trainable (tape_prepared [0, 1, 2])) = [0, 1]
   \<and> fst (adjoint_jacobian example_env (tape_prepared [0, 1, 2]) None True example_device)
       = Inl ValueError"
  by (simp add: example_eval tape_prepared_def upt_rec)



end
